theory Spec2Isabelle
  imports Main "HOL-Library.Word"
begin

section \<open>Data frames\<close>

text \<open>
  The notebook \<^verbatim>\<open>covid_plotter.ipynb\<close> prepares its two tables with pandas. A data frame
  is modelled column-wise, as pandas holds it: an index (the row labels) and an ordered
  list of named columns, each column with its dtype.

  \<^item> \<open>Datetime64\<close>: a \<^verbatim>\<open>datetime64[ns]\<close> column, nanoseconds since the epoch; \<open>None\<close> is
    \<^verbatim>\<open>NaT\<close>, the missing date.
  \<^item> \<open>Int64\<close>: an \<^verbatim>\<open>int64\<close> column, 64-bit two's-complement integers. pandas adds them
    with silent wrap-around, as \<open>+\<close> on \<open>64 word\<close> does; \<open>sint\<close> reads the signed value.
  \<^item> \<open>Object\<close>: an \<^verbatim>\<open>object\<close> column of text cells; \<open>None\<close> is a missing cell.

  A floating-point column (which is what pandas makes of a count column with an empty
  cell) has no counterpart here: such frames are outside the model.
\<close>

type_synonym timestamp = int

type_synonym int64 = "64 word"

datatype column =
    Datetime64 "timestamp option list"
  | Int64 "int64 list"
  | Object "string option list"

text \<open>
  The index: the row numbers \<open>0, ..., n - 1\<close> (\<^verbatim>\<open>RangeIndex\<close>), the named dates that a
  group-by leaves, or unnamed labels of dtype \<^verbatim>\<open>object\<close>.
\<close>

datatype index =
    RangeIndex nat
  | DatetimeIndex string "timestamp list"
  | ObjectIndex "string list"

record frame =
  index :: index
  columns :: "(string \<times> column) list"

text \<open>
  Exceptions are values. \<open>KeyError\<close>: a column label that the frame does not have.
  \<open>ValueError\<close>: \<^verbatim>\<open>join\<close> on overlapping column names, \<^verbatim>\<open>reset_index\<close> on a name
  that is already a column. \<open>NotModelled\<close> is not a Python exception: it marks a use of
  a pandas operation that this model leaves out (a group-by on a key that is no date
  column, a sum of text alone, a shift of a column that is no integer column, a join of
  two different indexes), so that no result can rest on it.
\<close>

datatype error = KeyError | ValueError | NotModelled

definition and_then :: "error + 'a \<Rightarrow> ('a \<Rightarrow> error + 'b) \<Rightarrow> error + 'b" where
  "and_then m f = (case m of Inl e \<Rightarrow> Inl e | Inr x \<Rightarrow> f x)"

definition column_names :: "frame \<Rightarrow> string list" where
  "column_names df = map fst (columns df)"

fun index_length :: "index \<Rightarrow> nat" where
  "index_length (RangeIndex n) = n"
| "index_length (DatetimeIndex name labels) = length labels"
| "index_length (ObjectIndex labels) = length labels"

definition n_rows :: "frame \<Rightarrow> nat" where
  "n_rows df = index_length (index df)"

subsection \<open>Selecting columns: \<^verbatim>\<open>df.loc[:, names]\<close> and \<^verbatim>\<open>df[names]\<close>\<close>

text \<open>
  Both forms return a new frame with the named columns, in the order of the request, and
  the same index. A name that is no column raises \<open>KeyError\<close>.
\<close>

fun select_columns :: "(string \<times> column) list \<Rightarrow> string list \<Rightarrow> error + (string \<times> column) list" where
  "select_columns cs [] = Inr []"
| "select_columns cs (n # ns) =
     (case map_of cs n of
        None \<Rightarrow> Inl KeyError
      | Some c \<Rightarrow> and_then (select_columns cs ns) (\<lambda>rest. Inr ((n, c) # rest)))"

definition getitem :: "frame \<Rightarrow> string list \<Rightarrow> error + frame" where
  "getitem df names =
     and_then (select_columns (columns df) names) (\<lambda>cs. Inr (df\<lparr>columns := cs\<rparr>))"

subsection \<open>\<^verbatim>\<open>groupby(key).agg('sum')\<close>\<close>

text \<open>
  \<^verbatim>\<open>groupby\<close> is called with its defaults: \<^verbatim>\<open>sort=True\<close> (the group keys come out in
  ascending order) and \<^verbatim>\<open>dropna=True\<close> (a row whose key is missing belongs to no group).
  The result is indexed by the group keys, and the index carries the key's name.

  The sum is called with its default \<^verbatim>\<open>numeric_only\<close>, which pandas resolves to true
  unless the grouped frame has rows and value columns of which none is numeric. With
  \<^verbatim>\<open>numeric_only\<close> true, the result holds the sum over each group of every integer
  column, in \<^verbatim>\<open>int64\<close> arithmetic, and every other column is dropped from it without an
  error. The sum of text columns alone is left out of the model.
\<close>

fun dropna :: "'a option list \<Rightarrow> 'a list" where
  "dropna [] = []"
| "dropna (None # ks) = dropna ks"
| "dropna (Some k # ks) = k # dropna ks"

definition group_keys :: "timestamp option list \<Rightarrow> timestamp list" where
  "group_keys ks = sort (remdups (dropna ks))"

definition group_sum :: "timestamp option list \<Rightarrow> int64 list \<Rightarrow> timestamp \<Rightarrow> int64" where
  "group_sum ks vs k = sum_list (map snd (filter (\<lambda>kv. fst kv = Some k) (zip ks vs)))"

fun is_numeric :: "column \<Rightarrow> bool" where
  "is_numeric (Int64 vs) = True"
| "is_numeric c = False"

definition numeric_only :: "nat \<Rightarrow> (string \<times> column) list \<Rightarrow> bool" where
  "numeric_only n cs = (cs = [] \<or> n = 0 \<or> list_ex (\<lambda>c. is_numeric (snd c)) cs)"

fun agg_sum :: "timestamp option list \<Rightarrow> timestamp list \<Rightarrow> (string \<times> column) list
    \<Rightarrow> (string \<times> column) list" where
  "agg_sum ks labels [] = []"
| "agg_sum ks labels ((n, Int64 vs) # cs) =
     (n, Int64 (map (group_sum ks vs) labels)) # agg_sum ks labels cs"
| "agg_sum ks labels ((n, c) # cs) = agg_sum ks labels cs"

definition groupby_agg_sum :: "frame \<Rightarrow> string \<Rightarrow> error + frame" where
  "groupby_agg_sum df key =
     (case map_of (columns df) key of
        None \<Rightarrow> Inl KeyError
      | Some (Datetime64 ks) \<Rightarrow>
          (let cs = filter (\<lambda>c. fst c \<noteq> key) (columns df) in
           if numeric_only (n_rows df) cs
           then Inr \<lparr>index = DatetimeIndex key (group_keys ks),
                     columns = agg_sum ks (group_keys ks) cs\<rparr>
           else Inl NotModelled)
      | Some c \<Rightarrow> Inl NotModelled)"

subsection \<open>\<^verbatim>\<open>reset_index()\<close>\<close>

text \<open>
  The index becomes the first column, under the index's name, and the rows are numbered
  \<open>0, 1, ...\<close> anew. Inserting a column whose name is taken raises \<open>ValueError\<close>. An
  unnamed index becomes a column \<^verbatim>\<open>index\<close> (\<^verbatim>\<open>level_0\<close> when \<^verbatim>\<open>index\<close> is taken).
\<close>

definition insert_first :: "string \<Rightarrow> column \<Rightarrow> nat \<Rightarrow> frame \<Rightarrow> error + frame" where
  "insert_first name c n df =
     (if name \<in> set (column_names df) then Inl ValueError
      else Inr \<lparr>index = RangeIndex n, columns = (name, c) # columns df\<rparr>)"

definition unnamed :: "frame \<Rightarrow> string" where
  "unnamed df = (if ''index'' \<in> set (column_names df) then ''level_0'' else ''index'')"

fun reset_index :: "frame \<Rightarrow> error + frame" where
  "reset_index df =
     (case index df of
        DatetimeIndex name labels \<Rightarrow>
          insert_first name (Datetime64 (map Some labels)) (length labels) df
      | RangeIndex n \<Rightarrow>
          insert_first (unnamed df) (Int64 (map of_nat [0..<n])) n df
      | ObjectIndex labels \<Rightarrow>
          insert_first (unnamed df) (Object (map Some labels)) (length labels) df)"

subsection \<open>\<^verbatim>\<open>shift(fill_value=v)\<close> and \<^verbatim>\<open>add_prefix\<close>\<close>

text \<open>
  \<^verbatim>\<open>shift\<close> with its default \<^verbatim>\<open>periods=1\<close> moves every column down by one row under an
  unchanged index: the last value falls out, and the first row receives the fill value.
  An integer column filled with an integer stays an integer column.
\<close>

definition shift_values :: "int64 \<Rightarrow> int64 list \<Rightarrow> int64 list" where
  "shift_values v xs = take (length xs) (v # xs)"

fun shift_columns :: "int64 \<Rightarrow> (string \<times> column) list \<Rightarrow> error + (string \<times> column) list" where
  "shift_columns v [] = Inr []"
| "shift_columns v ((n, Int64 xs) # cs) =
     and_then (shift_columns v cs) (\<lambda>rest. Inr ((n, Int64 (shift_values v xs)) # rest))"
| "shift_columns v ((n, c) # cs) = Inl NotModelled"

definition shift :: "frame \<Rightarrow> int64 \<Rightarrow> error + frame" where
  "shift df fill_value =
     and_then (shift_columns fill_value (columns df)) (\<lambda>cs. Inr (df\<lparr>columns := cs\<rparr>))"

definition add_prefix :: "frame \<Rightarrow> string \<Rightarrow> frame" where
  "add_prefix df prefix = df\<lparr>columns := map (\<lambda>c. (prefix @ fst c, snd c)) (columns df)\<rparr>"

subsection \<open>\<^verbatim>\<open>join\<close>\<close>

text \<open>
  \<^verbatim>\<open>left.join(right)\<close> is a left join on the index. Column names that occur on both
  sides raise \<open>ValueError\<close> (no suffix is given). Two frames with the same index are joined
  row by row: the columns of the right frame follow those of the left one, under the
  left index. A join without rows comes out under an empty index of dtype \<^verbatim>\<open>object\<close>:
  pandas converts the empty join index. The alignment of two different indexes, and the
  empty join of dated indexes, are left out of the model.
\<close>

fun join_index :: "index \<Rightarrow> error + index" where
  "join_index (RangeIndex n) = Inr (if n = 0 then ObjectIndex [] else RangeIndex n)"
| "join_index (ObjectIndex labels) = Inr (ObjectIndex labels)"
| "join_index (DatetimeIndex name labels) =
     (if labels = [] then Inl NotModelled else Inr (DatetimeIndex name labels))"

definition join :: "frame \<Rightarrow> frame \<Rightarrow> error + frame" where
  "join left right =
     (if set (column_names left) \<inter> set (column_names right) \<noteq> {} then Inl ValueError
      else if index left = index right
      then and_then (join_index (index left))
             (\<lambda>i. Inr \<lparr>index = i, columns = columns left @ columns right\<rparr>)
      else Inl NotModelled)"

section \<open>The notebook\<close>

subsection \<open>The loaded table\<close>

text \<open>
  One row of the county table, after the loader cell
  \<^verbatim>\<open>
  df_full = pd.read_csv(url)
  df_full['date'] = pd.to_datetime(df_full['date'])
  \<close>
  The CSV's columns are \<^verbatim>\<open>date, county, state, fips, cases, deaths\<close>. The date is a
  \<^verbatim>\<open>datetime64\<close> value, \<open>None\<close> for a row whose date cell was empty (\<^verbatim>\<open>NaT\<close>, a value of
  that dtype: the conversion accepts an empty cell). The codes and the counts are
  \<^verbatim>\<open>int64\<close> values, as \<^verbatim>\<open>read_csv\<close> infers for columns of integers. Column names are
  unique.
\<close>

record raw_record =
  date :: "timestamp option"
  county :: string
  state :: string
  fips :: int64
  cases :: int64
  deaths :: int64

definition raw_table :: "raw_record list \<Rightarrow> frame" where
  "raw_table t =
     \<lparr>index = RangeIndex (length t),
      columns =
        [(''date'', Datetime64 (map date t)),
         (''county'', Object (map (\<lambda>r. Some (county r)) t)),
         (''state'', Object (map (\<lambda>r. Some (state r)) t)),
         (''fips'', Int64 (map fips t)),
         (''cases'', Int64 (map cases t)),
         (''deaths'', Int64 (map deaths t))]\<rparr>"


subsection \<open>The aggregation cell\<close>

text \<open>
  \<^verbatim>\<open>
  # Create national aggregates by date
  df_plot = df_full.loc[:, ['date', 'cases', 'deaths']].groupby('date').agg('sum').reset_index()
  # Create columns for cobweb data
  df_plot = df_plot.join(df_plot[['cases', 'deaths']].shift(fill_value=0).add_prefix('cobweb_'))
  \<close>
  Each statement is a function of the frame it reads. No call passes \<^verbatim>\<open>inplace=True\<close>:
  every operation returns a new frame and leaves its argument as it is.
\<close>

definition national_aggregates :: "frame \<Rightarrow> error + frame" where
  "national_aggregates df_full =
     and_then (getitem df_full [''date'', ''cases'', ''deaths''])
       (\<lambda>a. and_then (groupby_agg_sum a ''date'') reset_index)"

definition cobweb_columns :: "frame \<Rightarrow> error + frame" where
  "cobweb_columns df_plot =
     and_then (getitem df_plot [''cases'', ''deaths''])
       (\<lambda>a. and_then (shift a 0) (\<lambda>b. join df_plot (add_prefix b ''cobweb_'')))"

text \<open>
  The cell runs in the notebook's namespace, which holds the loaded table \<^verbatim>\<open>df_full\<close>
  and, once the cell has run, \<^verbatim>\<open>df_plot\<close>. A statement that raises stops the cell; the
  assignments made before it stay.
\<close>

record namespace =
  df_full :: frame
  df_plot :: "frame option"

definition aggregator_cell :: "namespace \<Rightarrow> namespace \<times> error option" where
  "aggregator_cell ns =
     (case national_aggregates (df_full ns) of
        Inl e \<Rightarrow> (ns, Some e)
      | Inr a \<Rightarrow>
          (case cobweb_columns a of
             Inl e \<Rightarrow> (ns\<lparr>df_plot := Some a\<rparr>, Some e)
           | Inr b \<Rightarrow> (ns\<lparr>df_plot := Some b\<rparr>, None)))"

text \<open>The aggregator on a loaded table: the cell's two statements in sequence.\<close>

definition aggregator :: "raw_record list \<Rightarrow> error + frame" where
  "aggregator t = and_then (national_aggregates (raw_table t)) cobweb_columns"

section \<open>Reading a result\<close>

text \<open>
  What a computation returned, read back for the statements below: a column of a given
  name and dtype, the number of rows, the column names. Each is \<open>None\<close> when the
  computation raised, or when the frame has no such column.
\<close>

definition int_column :: "error + frame \<Rightarrow> string \<Rightarrow> int64 list option" where
  "int_column r name =
     (case r of
        Inl e \<Rightarrow> None
      | Inr df \<Rightarrow> (case map_of (columns df) name of Some (Int64 xs) \<Rightarrow> Some xs | _ \<Rightarrow> None))"

definition datetime_column :: "error + frame \<Rightarrow> string \<Rightarrow> timestamp option list option" where
  "datetime_column r name =
     (case r of
        Inl e \<Rightarrow> None
      | Inr df \<Rightarrow> (case map_of (columns df) name of Some (Datetime64 xs) \<Rightarrow> Some xs | _ \<Rightarrow> None))"

definition row_count :: "error + frame \<Rightarrow> nat option" where
  "row_count r = (case r of Inl e \<Rightarrow> None | Inr df \<Rightarrow> Some (n_rows df))"

definition names_of :: "error + frame \<Rightarrow> string list option" where
  "names_of r = (case r of Inl e \<Rightarrow> None | Inr df \<Rightarrow> Some (column_names df))"

text \<open>
  The dates of the daily table and the daily sums of a count, named for the statements:
  the group keys of the date column, and the group sums of a column over them.
\<close>

definition daily_dates :: "raw_record list \<Rightarrow> timestamp list" where
  "daily_dates t = group_keys (map date t)"

definition daily_sums :: "(raw_record \<Rightarrow> int64) \<Rightarrow> raw_record list \<Rightarrow> int64 list" where
  "daily_sums f t = map (group_sum (map date t) (map f t)) (daily_dates t)"



subsection \<open>Example tables\<close>

text \<open>Midnight (UTC) of three days of January 2020, in nanoseconds since the epoch.\<close>

definition day_2020_01_21 :: timestamp where
  "day_2020_01_21 = 1579564800000000000"

definition day_2020_01_22 :: timestamp where
  "day_2020_01_22 = 1579651200000000000"

definition day_2020_01_25 :: timestamp where
  "day_2020_01_25 = 1579910400000000000"

text \<open>The specification's scenario, with counties filled in.\<close>

definition scenario :: "raw_record list" where
  "scenario =
     [\<lparr>date = Some day_2020_01_21, county = ''Snohomish'', state = ''Washington'',
       fips = 53061, cases = 1, deaths = 0\<rparr>,
      \<lparr>date = Some day_2020_01_21, county = ''Cook'', state = ''Illinois'',
       fips = 17031, cases = 0, deaths = 0\<rparr>,
      \<lparr>date = Some day_2020_01_22, county = ''Snohomish'', state = ''Washington'',
       fips = 53061, cases = 2, deaths = 1\<rparr>]"

text \<open>A table out of date order, with no row for 22, 23 and 24 January.\<close>

definition gap_table :: "raw_record list" where
  "gap_table =
     [\<lparr>date = Some day_2020_01_25, county = ''Cook'', state = ''Illinois'',
       fips = 17031, cases = 7, deaths = 1\<rparr>,
      \<lparr>date = Some day_2020_01_21, county = ''Snohomish'', state = ''Washington'',
       fips = 53061, cases = 1, deaths = 0\<rparr>,
      \<lparr>date = Some day_2020_01_21, county = ''Cook'', state = ''Illinois'',
       fips = 17031, cases = 2, deaths = 0\<rparr>]"



text \<open>A frame that lacks the \<^verbatim>\<open>date\<close> column.\<close>

definition undated_frame :: frame where
  "undated_frame =
     \<lparr>index = RangeIndex 1,
      columns =
        [(''county'', Object [Some ''Snohomish'']),
         (''cases'', Int64 [1]),
         (''deaths'', Int64 [0])]\<rparr>"

section \<open>What the aggregation computes\<close>

subsection \<open>The two statements on a loaded table\<close>

lemma national_aggregates_raw_table:
  "national_aggregates (raw_table t) =
     Inr \<lparr>index = RangeIndex (length (group_keys (map date t))),
          columns =
            [(''date'', Datetime64 (map Some (group_keys (map date t)))),
             (''cases'', Int64 (map (group_sum (map date t) (map cases t)) (group_keys (map date t)))),
             (''deaths'', Int64 (map (group_sum (map date t) (map deaths t)) (group_keys (map date t))))]\<rparr>"
  by (simp add: national_aggregates_def raw_table_def getitem_def and_then_def
      groupby_agg_sum_def numeric_only_def insert_first_def column_names_def)

lemma cobweb_columns_eval:
  "cobweb_columns \<lparr>index = RangeIndex n,
      columns = [(''date'', Datetime64 ds), (''cases'', Int64 cs), (''deaths'', Int64 dts)]\<rparr> =
   Inr \<lparr>index = (if n = 0 then ObjectIndex [] else RangeIndex n),
      columns = [(''date'', Datetime64 ds), (''cases'', Int64 cs), (''deaths'', Int64 dts),
        (''cobweb_cases'', Int64 (shift_values 0 cs)),
        (''cobweb_deaths'', Int64 (shift_values 0 dts))]\<rparr>"
  by (simp add: cobweb_columns_def getitem_def and_then_def shift_def add_prefix_def
      join_def column_names_def)

lemma aggregator_eval:
  "aggregator t =
     Inr \<lparr>index = (if daily_dates t = [] then ObjectIndex []
                   else RangeIndex (length (daily_dates t))),
          columns =
            [(''date'', Datetime64 (map Some (daily_dates t))),
             (''cases'', Int64 (daily_sums cases t)),
             (''deaths'', Int64 (daily_sums deaths t)),
             (''cobweb_cases'', Int64 (shift_values 0 (daily_sums cases t))),
             (''cobweb_deaths'', Int64 (shift_values 0 (daily_sums deaths t)))]\<rparr>"
  unfolding aggregator_def national_aggregates_raw_table daily_dates_def daily_sums_def
  by (simp add: and_then_def cobweb_columns_eval)

lemma aggregator_succeeds: "\<exists>out. aggregator t = Inr out"
  by (simp add: aggregator_eval)

lemma aggregator_cell_raw_table:
  "aggregator t = Inr out \<Longrightarrow>
   aggregator_cell \<lparr>df_full = raw_table t, df_plot = p\<rparr> =
     (\<lparr>df_full = raw_table t, df_plot = Some out\<rparr>, None)"
  by (auto simp: aggregator_def aggregator_cell_def and_then_def split: sum.splits)

lemma int_column_aggregator:
  "int_column (aggregator t) ''cases'' = Some (daily_sums cases t)"
  "int_column (aggregator t) ''deaths'' = Some (daily_sums deaths t)"
  "int_column (aggregator t) ''cobweb_cases'' = Some (shift_values 0 (daily_sums cases t))"
  "int_column (aggregator t) ''cobweb_deaths'' = Some (shift_values 0 (daily_sums deaths t))"
  by (simp_all add: aggregator_eval int_column_def)

lemma datetime_column_aggregator:
  "datetime_column (aggregator t) ''date'' = Some (map Some (daily_dates t))"
  by (simp add: aggregator_eval datetime_column_def)

lemma row_count_aggregator: "row_count (aggregator t) = Some (length (daily_dates t))"
  by (simp add: aggregator_eval row_count_def n_rows_def)

subsection \<open>Group keys\<close>

lemma set_dropna: "set (dropna ks) = {k. Some k \<in> set ks}"
  by (induction ks rule: dropna.induct) auto

lemma set_group_keys: "set (group_keys ks) = {k. Some k \<in> set ks}"
  by (simp add: group_keys_def set_dropna)

lemma distinct_group_keys: "distinct (group_keys ks)"
  by (simp add: group_keys_def)



subsection \<open>Group sums\<close>


lemma length_daily_sums: "length (daily_sums f t) = length (daily_dates t)"
  by (simp add: daily_sums_def)







subsection \<open>Sums without wrap-around\<close>





subsection \<open>The shift\<close>

lemma shift_values_nth:
  "i < length xs \<Longrightarrow> shift_values v xs ! i = (if i = 0 then v else xs ! (i - 1))"
  by (cases i) (simp_all add: shift_values_def)

lemma length_shift_values: "length (shift_values v xs) = length xs"
  by (simp add: shift_values_def)

subsection \<open>The example tables\<close>


lemma daily_dates_gap_table: "daily_dates gap_table = [day_2020_01_21, day_2020_01_25]"
  by (simp add: daily_dates_def gap_table_def group_keys_def day_2020_01_21_def
      day_2020_01_25_def)




lemma daily_sums_gap_table:
  "daily_sums cases gap_table = [3, 7]" "daily_sums deaths gap_table = [0, 1]"
  unfolding daily_sums_def daily_dates_gap_table
  by (simp_all add: group_sum_def gap_table_def day_2020_01_21_def day_2020_01_25_def)




section \<open>The claims\<close>

text \<open>
  C1. For every loaded table, the aggregation succeeds, and in the daily table the
  shifted (cobweb) cases of row \<open>i > 0\<close> are the summed cases of row \<open>i - 1\<close>, and the
  shifted cases of row \<open>0\<close> are \<open>0\<close>; likewise for deaths. The shifted columns are
  integer columns with one cell per row: the \<open>0\<close> of the first row is a value, not a
  missing cell.
\<close>

theorem cobweb_is_previous_row:
  "\<exists>cs ds ws vs.
     int_column (aggregator t) ''cases'' = Some cs \<and>
     int_column (aggregator t) ''deaths'' = Some ds \<and>
     int_column (aggregator t) ''cobweb_cases'' = Some ws \<and>
     int_column (aggregator t) ''cobweb_deaths'' = Some vs \<and>
     row_count (aggregator t) = Some (length cs) \<and>
     length ds = length cs \<and> length ws = length cs \<and> length vs = length cs \<and>
     (\<forall>i < length cs. ws ! i = (if i = 0 then 0 else cs ! (i - 1))) \<and>
     (\<forall>i < length cs. vs ! i = (if i = 0 then 0 else ds ! (i - 1)))"
proof (intro exI conjI)
  show "int_column (aggregator t) ''cases'' = Some (daily_sums cases t)"
    by (rule int_column_aggregator)
  show "int_column (aggregator t) ''deaths'' = Some (daily_sums deaths t)"
    by (rule int_column_aggregator)
  show "int_column (aggregator t) ''cobweb_cases'' = Some (shift_values 0 (daily_sums cases t))"
    by (rule int_column_aggregator)
  show "int_column (aggregator t) ''cobweb_deaths'' = Some (shift_values 0 (daily_sums deaths t))"
    by (rule int_column_aggregator)
  show "row_count (aggregator t) = Some (length (daily_sums cases t))"
    by (simp add: row_count_aggregator length_daily_sums)
  show "length (daily_sums deaths t) = length (daily_sums cases t)"
    by (simp add: length_daily_sums)
  show "length (shift_values 0 (daily_sums cases t)) = length (daily_sums cases t)"
    by (rule length_shift_values)
  show "length (shift_values 0 (daily_sums deaths t)) = length (daily_sums cases t)"
    by (simp add: length_shift_values length_daily_sums)
  show "\<forall>i < length (daily_sums cases t).
      shift_values 0 (daily_sums cases t) ! i = (if i = 0 then 0 else daily_sums cases t ! (i - 1))"
    by (simp add: shift_values_nth)
  show "\<forall>i < length (daily_sums cases t).
      shift_values 0 (daily_sums deaths t) ! i = (if i = 0 then 0 else daily_sums deaths t ! (i - 1))"
    by (simp add: shift_values_nth length_daily_sums)
qed

text \<open>On the table with a gap: the sums are 3 and 7, 0 and 1; shifted, 0 and 3, 0 and 0.\<close>

theorem cobweb_is_previous_row_witness:
  "int_column (aggregator gap_table) ''cases'' = Some [3, 7] \<and>
   int_column (aggregator gap_table) ''cobweb_cases'' = Some [0, 3] \<and>
   int_column (aggregator gap_table) ''deaths'' = Some [0, 1] \<and>
   int_column (aggregator gap_table) ''cobweb_deaths'' = Some [0, 0]"
  using cobweb_is_previous_row [of gap_table]
  by (simp add: int_column_aggregator daily_sums_gap_table shift_values_def)




text \<open>
  C3. For every loaded table, the daily table has exactly one row per distinct date of
  the loaded table: its dates are pairwise different, they are exactly the dates that
  some row of the loaded table carries (so a date with no row never appears, and a gap
  in the reporting adds no row), and the row count is the number of distinct dates.
  A missing date is no date.
\<close>

theorem one_row_per_date:
  "\<exists>ds.
     datetime_column (aggregator t) ''date'' = Some (map Some ds) \<and>
     row_count (aggregator t) = Some (length ds) \<and>
     distinct ds \<and>
     set ds = {d. Some d \<in> date ` set t} \<and>
     length ds = card {d. Some d \<in> date ` set t}"
proof (intro exI conjI)
  show "datetime_column (aggregator t) ''date'' = Some (map Some (daily_dates t))"
    by (rule datetime_column_aggregator)
  show "row_count (aggregator t) = Some (length (daily_dates t))"
    by (rule row_count_aggregator)
  show d: "distinct (daily_dates t)"
    by (simp add: daily_dates_def distinct_group_keys)
  show s: "set (daily_dates t) = {d. Some d \<in> date ` set t}"
    by (simp add: daily_dates_def set_group_keys)
  from d have "length (daily_dates t) = card (set (daily_dates t))"
    by (simp add: distinct_card)
  with s show "length (daily_dates t) = card {d. Some d \<in> date ` set t}"
    by simp
qed

text \<open>On the table with a gap: two rows, 21 and 25 January, none for the days between.\<close>

theorem one_row_per_date_witness:
  "datetime_column (aggregator gap_table) ''date'' =
     Some [Some day_2020_01_21, Some day_2020_01_25] \<and>
   row_count (aggregator gap_table) = Some 2"
  using one_row_per_date [of gap_table]
  by (simp add: datetime_column_aggregator row_count_aggregator daily_dates_gap_table)




text \<open>
  C5. The scenario: two rows of 21 January 2020 with 1 and 0 cases and no deaths, and
  one row of 22 January with 2 cases and 1 death, of whatever counties, give exactly
  the daily table (21 January: 1, 0, shifted 0, 0) and (22 January: 2, 1, shifted 1, 0).
\<close>

theorem scenario_daily_totals:
  "aggregator
     [\<lparr>date = Some day_2020_01_21, county = c1, state = s1, fips = f1, cases = 1, deaths = 0\<rparr>,
      \<lparr>date = Some day_2020_01_21, county = c2, state = s2, fips = f2, cases = 0, deaths = 0\<rparr>,
      \<lparr>date = Some day_2020_01_22, county = c3, state = s3, fips = f3, cases = 2, deaths = 1\<rparr>] =
   Inr \<lparr>index = RangeIndex 2,
        columns =
          [(''date'', Datetime64 [Some day_2020_01_21, Some day_2020_01_22]),
           (''cases'', Int64 [1, 2]),
           (''deaths'', Int64 [0, 1]),
           (''cobweb_cases'', Int64 [0, 1]),
           (''cobweb_deaths'', Int64 [0, 0])]\<rparr>"
proof -
  let ?t = "[\<lparr>date = Some day_2020_01_21, county = c1, state = s1, fips = f1, cases = 1, deaths = 0\<rparr>,
      \<lparr>date = Some day_2020_01_21, county = c2, state = s2, fips = f2, cases = 0, deaths = 0\<rparr>,
      \<lparr>date = Some day_2020_01_22, county = c3, state = s3, fips = f3, cases = 2, deaths = 1\<rparr>]"
  have dates: "daily_dates ?t = [day_2020_01_21, day_2020_01_22]"
    by (simp add: daily_dates_def group_keys_def day_2020_01_21_def day_2020_01_22_def)
  have c: "daily_sums cases ?t = [1, 2]"
    unfolding daily_sums_def dates
    by (simp add: group_sum_def day_2020_01_21_def day_2020_01_22_def)
  have d: "daily_sums deaths ?t = [0, 1]"
    unfolding daily_sums_def dates
    by (simp add: group_sum_def day_2020_01_21_def day_2020_01_22_def)
  show ?thesis
    unfolding aggregator_eval dates c d by (simp add: shift_values_def)
qed

text \<open>The scenario with its counties filled in.\<close>

theorem scenario_daily_totals_witness:
  "aggregator scenario =
   Inr \<lparr>index = RangeIndex 2,
        columns =
          [(''date'', Datetime64 [Some day_2020_01_21, Some day_2020_01_22]),
           (''cases'', Int64 [1, 2]),
           (''deaths'', Int64 [0, 1]),
           (''cobweb_cases'', Int64 [0, 1]),
           (''cobweb_deaths'', Int64 [0, 0])]\<rparr>"
  unfolding scenario_def
  by (rule scenario_daily_totals)

text \<open>
  C7. For every loaded table, the daily table has exactly the five columns
  \<^verbatim>\<open>date\<close>, \<^verbatim>\<open>cases\<close>, \<^verbatim>\<open>deaths\<close>, \<^verbatim>\<open>cobweb_cases\<close>, \<^verbatim>\<open>cobweb_deaths\<close>, in this
  order; \<^verbatim>\<open>county\<close>, \<^verbatim>\<open>state\<close> and \<^verbatim>\<open>fips\<close> are not among them.
\<close>

theorem five_columns:
  "\<exists>ns.
     names_of (aggregator t) = Some ns \<and>
     ns = [''date'', ''cases'', ''deaths'', ''cobweb_cases'', ''cobweb_deaths''] \<and>
     ''county'' \<notin> set ns \<and> ''state'' \<notin> set ns \<and> ''fips'' \<notin> set ns"
  by (simp add: aggregator_eval names_of_def column_names_def)

text \<open>The scenario's loaded table has six columns, its daily table the five.\<close>

theorem five_columns_witness:
  "names_of (Inr (raw_table scenario)) =
     Some [''date'', ''county'', ''state'', ''fips'', ''cases'', ''deaths''] \<and>
   names_of (aggregator scenario) =
     Some [''date'', ''cases'', ''deaths'', ''cobweb_cases'', ''cobweb_deaths'']"
  using five_columns [of scenario]
  by (auto simp: names_of_def column_names_def raw_table_def)

text \<open>
  C9. The aggregation cell leaves \<^verbatim>\<open>df_full\<close> as it was, in every namespace and
  whether it raises or not; on a loaded table it succeeds, and the namespace after it
  holds the same loaded table, every column of every row, beside the daily table.
\<close>

theorem aggregator_cell_keeps_df_full:
  "df_full (fst (aggregator_cell ns)) = df_full ns \<and>
   (\<exists>out. aggregator_cell \<lparr>df_full = raw_table t, df_plot = p\<rparr> =
      (\<lparr>df_full = raw_table t, df_plot = Some out\<rparr>, None))"
proof
  show "df_full (fst (aggregator_cell ns)) = df_full ns"
    by (simp add: aggregator_cell_def split: sum.splits)
  from aggregator_succeeds obtain out where "aggregator t = Inr out" ..
  then show "\<exists>out. aggregator_cell \<lparr>df_full = raw_table t, df_plot = p\<rparr> =
      (\<lparr>df_full = raw_table t, df_plot = Some out\<rparr>, None)"
    by (blast dest: aggregator_cell_raw_table)
qed

text \<open>
  The scenario's loaded table, and a frame without dates, on which the first statement
  raises \<open>KeyError\<close>.
\<close>

theorem aggregator_cell_keeps_df_full_witness:
  "df_full (fst (aggregator_cell \<lparr>df_full = raw_table scenario, df_plot = None\<rparr>)) =
     raw_table scenario \<and>
   aggregator_cell \<lparr>df_full = undated_frame, df_plot = None\<rparr> =
     (\<lparr>df_full = undated_frame, df_plot = None\<rparr>, Some KeyError)"
proof -
  have "aggregator_cell \<lparr>df_full = undated_frame, df_plot = None\<rparr> =
      (\<lparr>df_full = undated_frame, df_plot = None\<rparr>, Some KeyError)"
    by (simp add: aggregator_cell_def national_aggregates_def getitem_def and_then_def
        undated_frame_def)
  with aggregator_cell_keeps_df_full
    [of "\<lparr>df_full = raw_table scenario, df_plot = None\<rparr>" scenario None]
  show ?thesis by simp
qed



end
